theory Spec2Isabelle
  imports Complex_Main "HOL-Library.Sublist"
begin

section \<open>The fraud-detection pipeline: get data, train, upload\<close>

text \<open>
  A shallow embedding of \<^verbatim>\<open>src/pipeline/7_get_data_train_upload.py\<close>. The file
  declares three pipeline components (\<^verbatim>\<open>get_data\<close>, \<^verbatim>\<open>train_model\<close>,
  \<^verbatim>\<open>upload_model\<close>), a pipeline function wiring them, and a submission routine
  (the \<^verbatim>\<open>__main__\<close> block). Calls into third-party libraries (kfp, boto3,
  scikit-learn, keras, tf2onnx) are parameters of the model: a record of functions that
  return either an error or a value. The one exception is the balanced class-weight rule,
  which is written out where it is used. What the Python raises is a value of
  \<open>py_error\<close>; what it prints, reads or calls is an entry of an event trace.
\<close>

subsection \<open>Errors, environment, files\<close>

datatype py_error =
    KeyError string
  | NameError string
  | IndexError string
  | ValueError string
  | TypeError string
  | NotFittedError
  | LibraryError string

type_synonym environ = "string \<rightharpoonup> string"

text \<open>Regular files by path, with their text; \<^verbatim>\<open>os.path.isfile\<close> asks whether a path is one.\<close>

type_synonym files = "string \<rightharpoonup> string"

definition isfile :: "files \<Rightarrow> string \<Rightarrow> bool" where
  "isfile fs p = (fs p \<noteq> None)"

text \<open>\<^verbatim>\<open>os.environ[k]\<close> raises \<^verbatim>\<open>KeyError\<close> on a missing key; \<^verbatim>\<open>os.environ.get(k)\<close> gives \<^verbatim>\<open>None\<close>.\<close>

definition environ_getitem :: "environ \<Rightarrow> string \<Rightarrow> py_error + string" where
  "environ_getitem environ k = (case environ k of None \<Rightarrow> Inl (KeyError k) | Some v \<Rightarrow> Inr v)"

definition environ_get :: "environ \<Rightarrow> string \<Rightarrow> string option" where
  "environ_get environ k = environ k"

text \<open>\<^verbatim>\<open>sub in s\<close> on Python strings: \<open>sub\<close> occurs in \<open>s\<close> as a contiguous run.\<close>

fun str_contains :: "string \<Rightarrow> string \<Rightarrow> bool" where
  "str_contains sub [] = (sub = [])"
| "str_contains sub (c # cs) = (prefix sub (c # cs) \<or> str_contains sub cs)"

text \<open>
  \<^verbatim>\<open>str.rstrip()\<close>: trailing whitespace removed. A character here is a code point
  below 256; the code points below are all of Python's whitespace in that range.
\<close>

definition is_space :: "char \<Rightarrow> bool" where
  "is_space c = (of_char c \<in> {9, 10, 11, 12, 13, 28, 29, 30, 31, 32, 133, 160 :: nat})"

definition rstrip :: "string \<Rightarrow> string" where
  "rstrip s = rev (dropWhile is_space (rev s))"

text \<open>\<^verbatim>\<open>print(x)\<close> of a value that is a string or \<^verbatim>\<open>None\<close>.\<close>

definition str_of_opt :: "string option \<Rightarrow> string" where
  "str_of_opt v = (case v of None \<Rightarrow> ''None'' | Some s \<Rightarrow> s)"

subsection \<open>The pipeline definition\<close>

text \<open>
  A component is what \<^verbatim>\<open>@dsl.component\<close> makes of a function: its name, its
  \<^verbatim>\<open>InputPath\<close> parameters (the inputs) and its \<^verbatim>\<open>OutputPath\<close> parameters (the
  outputs), with the image and the packages of the decorator.
\<close>

record component =
  comp_name :: string
  comp_inputs :: "string list"
  comp_outputs :: "string list"
  base_image :: string
  packages_to_install :: "string list"

definition runtime_image :: string where
  "runtime_image = ''quay.io/modh/runtime-images:runtime-cuda-tensorflow-ubi9-python-3.9-2024a-20240523''"

definition get_data_component :: component where
  "get_data_component =
     \<lparr>comp_name = ''get_data'',
      comp_inputs = [],
      comp_outputs = [''train_data_output_path'', ''validate_data_output_path''],
      base_image = runtime_image,
      packages_to_install = []\<rparr>"

definition train_model_component :: component where
  "train_model_component =
     \<lparr>comp_name = ''train_model'',
      comp_inputs = [''train_data_input_path'', ''validate_data_input_path''],
      comp_outputs = [''model_output_path''],
      base_image = runtime_image,
      packages_to_install = [''onnx==1.17.0'', ''onnxruntime==1.19.2'', ''tf2onnx==1.16.1'']\<rparr>"

definition upload_model_component :: component where
  "upload_model_component =
     \<lparr>comp_name = ''upload_model'',
      comp_inputs = [''input_model_path''],
      comp_outputs = [],
      base_image = runtime_image,
      packages_to_install = [''boto3==1.35.55'', ''botocore==1.35.55'']\<rparr>"

text \<open>An artifact is named by the task that produces it and the output's name.\<close>

record artifact =
  producer :: string
  output_key :: string

text \<open>
  A task is one call of a component inside the pipeline function: the artifacts bound to
  its inputs, the environment variables set on it, and the secrets mapped into its
  environment (the secret's name with its list of secret key and variable name).
\<close>

record task =
  task_name :: string
  task_outputs :: "string list"
  task_inputs :: "(string \<times> artifact) list"
  task_env :: "(string \<times> string) list"
  task_secret_env :: "(string \<times> (string \<times> string) list) list"

text \<open>
  Calling a component with keyword arguments: the keywords must be the component's
  inputs, each given once, or the call raises \<^verbatim>\<open>TypeError\<close>.
\<close>

definition call_component :: "component \<Rightarrow> (string \<times> artifact) list \<Rightarrow> py_error + task" where
  "call_component c args =
     (if distinct (map fst args) \<and> set (map fst args) = set (comp_inputs c)
      then Inr \<lparr>task_name = comp_name c, task_outputs = comp_outputs c, task_inputs = args,
                task_env = [], task_secret_env = []\<rparr>
      else Inl (TypeError (comp_name c)))"

text \<open>\<^verbatim>\<open>task.outputs[key]\<close>: a dictionary lookup among the outputs the component declares.\<close>

definition outputs :: "task \<Rightarrow> string \<Rightarrow> py_error + artifact" where
  "outputs t k =
     (if k \<in> set (task_outputs t) then Inr \<lparr>producer = task_name t, output_key = k\<rparr>
      else Inl (KeyError k))"

definition set_env_variable :: "task \<Rightarrow> string \<Rightarrow> string \<Rightarrow> task" where
  "set_env_variable t name v = t\<lparr>task_env := task_env t @ [(name, v)]\<rparr>"

definition use_secret_as_env :: "task \<Rightarrow> string \<Rightarrow> (string \<times> string) list \<Rightarrow> task" where
  "use_secret_as_env t secret_name secret_key_to_env =
     t\<lparr>task_secret_env := task_secret_env t @ [(secret_name, secret_key_to_env)]\<rparr>"

text \<open>Sequencing of steps that may raise: the first error ends the run.\<close>

definition bind_err :: "py_error + 'a \<Rightarrow> ('a \<Rightarrow> py_error + 'b) \<Rightarrow> py_error + 'b" where
  "bind_err m f = (case m of Inl e \<Rightarrow> Inl e | Inr x \<Rightarrow> f x)"

text \<open>
  The pipeline function. Its value is the list of tasks it created, in the order of
  creation, each as it stands when the function returns.
\<close>

definition pipeline :: "py_error + task list" where
  "pipeline =
     bind_err (call_component get_data_component []) (\<lambda>get_data_task.
     bind_err (outputs get_data_task ''train_data_output_path'') (\<lambda>train_data_csv_file.
     bind_err (outputs get_data_task ''validate_data_output_path'') (\<lambda>validate_data_csv_file.
     bind_err (call_component train_model_component
                 [(''train_data_input_path'', train_data_csv_file),
                  (''validate_data_input_path'', validate_data_csv_file)]) (\<lambda>train_model_task.
     bind_err (outputs train_model_task ''model_output_path'') (\<lambda>onnx_file.
     bind_err (call_component upload_model_component [(''input_model_path'', onnx_file)])
       (\<lambda>upload_model_task.
         let upload_model_task =
               set_env_variable upload_model_task ''S3_KEY'' ''models/fraud/1/model.onnx'';
             upload_model_task =
               use_secret_as_env upload_model_task ''frauddetection-storage''
                 [(''AWS_ACCESS_KEY_ID'', ''AWS_ACCESS_KEY_ID''),
                  (''AWS_SECRET_ACCESS_KEY'', ''AWS_SECRET_ACCESS_KEY''),
                  (''AWS_DEFAULT_REGION'', ''AWS_DEFAULT_REGION''),
                  (''AWS_S3_BUCKET'', ''AWS_S3_BUCKET''),
                  (''AWS_S3_ENDPOINT'', ''AWS_S3_ENDPOINT'')]
         in Inr [get_data_task, train_model_task, upload_model_task]))))))"

text \<open>
  The artifact dependencies of a list of tasks: one entry per bound input, as
  (producing task, output, consuming task, input).
\<close>

definition artifact_edges :: "task list \<Rightarrow> (string \<times> string \<times> string \<times> string) list" where
  "artifact_edges ts =
     concat (map (\<lambda>t. map (\<lambda>(i, a). (producer a, output_key a, task_name t, i)) (task_inputs t)) ts)"

subsection \<open>The submission routine\<close>

text \<open>
  What the routines do besides computing a value: each print, file test, file read and
  library call is an event, recorded in order.
\<close>

record client_args =
  host :: string
  existing_token :: string
  ssl_ca_cert :: "string option"

datatype event =
    Print string
  | IsFile string
  | ReadFile string
  | KfpClient client_args
  | KfpCreateRun string
  | Boto3Session "string option" "string option"
  | S3Resource "string option" "string option"
  | S3Bucket "string option"
  | S3UploadFile string "string option"
  | S3Request

text \<open>
  The kfp client library, a parameter of the model: creating a client for a host, and
  compiling and submitting a pipeline under an experiment name, which gives the run's id.
\<close>

record 'c kfp_lib =
  Client :: "client_args \<Rightarrow> py_error + 'c"
  create_run_from_pipeline_func :: "'c \<Rightarrow> py_error + task list \<Rightarrow> string \<Rightarrow> py_error + string"

definition sa_token_path :: string where
  "sa_token_path = ''/run/secrets/kubernetes.io/serviceaccount/token''"

definition sa_ca_cert :: string where
  "sa_ca_cert = ''/run/secrets/kubernetes.io/serviceaccount/service-ca.crt''"

text \<open>
  The \<^verbatim>\<open>__main__\<close> block. \<^verbatim>\<open>bearer_token\<close> is assigned only when the token file
  exists, so it is an option here, and its first use (\<^verbatim>\<open>print(bearer_token)\<close>) raises
  \<^verbatim>\<open>NameError\<close> when it was never assigned. The result is the trace of events up to
  the return or the raise, and the run's id or the error.
\<close>

definition main :: "'c kfp_lib \<Rightarrow> environ \<Rightarrow> files \<Rightarrow> event list \<times> (py_error + string)" where
  "main kfp environ fs =
     (case environ_getitem environ ''KUBEFLOW_ENDPOINT'' of
        Inl e \<Rightarrow> ([], Inl e)
      | Inr kubeflow_endpoint \<Rightarrow>
          let t = [Print (''Connecting to kfp: '' @ kubeflow_endpoint), IsFile sa_token_path];
              bearer_token = (case fs sa_token_path of None \<Rightarrow> None | Some f \<Rightarrow> Some (rstrip f));
              t = t @ (if isfile fs sa_token_path then [ReadFile sa_token_path] else []);
              t = t @ [IsFile sa_ca_cert];
              ca = (if isfile fs sa_ca_cert \<and> str_contains ''svc'' kubeflow_endpoint
                    then Some sa_ca_cert else None);
              t = t @ (if isfile fs sa_ca_cert \<and> str_contains ''svc'' kubeflow_endpoint
                       then [] else [Print ''there is no ssl_ca_cert'']);
              t = t @ [Print kubeflow_endpoint]
          in (case bearer_token of
                None \<Rightarrow> (t, Inl (NameError ''bearer_token''))
              | Some bearer_token \<Rightarrow>
                  let t = t @ [Print bearer_token, Print (str_of_opt ca)];
                      args = \<lparr>host = kubeflow_endpoint, existing_token = bearer_token,
                              ssl_ca_cert = ca\<rparr>;
                      t = t @ [KfpClient args]
                  in (case Client kfp args of
                        Inl e \<Rightarrow> (t, Inl e)
                      | Inr client \<Rightarrow>
                          let t = t @ [KfpCreateRun ''fraud-detection'']
                          in (case create_run_from_pipeline_func kfp client pipeline
                                     ''fraud-detection'' of
                                Inl e \<Rightarrow> (t, Inl e)
                              | Inr run_id \<Rightarrow>
                                  (t @ [Print (''Starting pipeline run with run_id: '' @ run_id)],
                                   Inr run_id)))))"

text \<open>The events in which the routine hands control to the client library.\<close>

fun kfp_event :: "event \<Rightarrow> bool" where
  "kfp_event (KfpClient _) = True"
| "kfp_event (KfpCreateRun _) = True"
| "kfp_event _ = False"

text \<open>The certificate arguments of the clients created in a trace.\<close>

fun client_ca_certs :: "event list \<Rightarrow> string option list" where
  "client_ca_certs [] = []"
| "client_ca_certs (KfpClient a # es) = ssl_ca_cert a # client_ca_certs es"
| "client_ca_certs (_ # es) = client_ca_certs es"

text \<open>A client library for the examples: every call succeeds; the run's id is fixed.\<close>

definition accepting_kfp :: "client_args kfp_lib" where
  "accepting_kfp =
     \<lparr>Client = (\<lambda>a. Inr a), create_run_from_pipeline_func = (\<lambda>c p x. Inr ''run-1'')\<rparr>"

subsection \<open>The upload step\<close>

text \<open>
  The storage client library (boto3), a parameter of the model. A session is made from
  two credentials, a resource from a session, an endpoint and a region, a bucket from a
  resource and a name; each of these arguments may be \<^verbatim>\<open>None\<close>. \<^verbatim>\<open>upload_file\<close>
  takes the bucket, the file's path and the key; it answers whether a request went out
  to the storage service, and the error raised, if any.
\<close>

record ('s, 'r, 'b) s3_lib =
  Session :: "string option \<Rightarrow> string option \<Rightarrow> py_error + 's"
  resource :: "'s \<Rightarrow> string option \<Rightarrow> string option \<Rightarrow> py_error + 'r"
  Bucket :: "'r \<Rightarrow> string option \<Rightarrow> py_error + 'b"
  upload_file :: "'b \<Rightarrow> string \<Rightarrow> string option \<Rightarrow> bool \<times> (py_error + unit)"

definition upload_model ::
  "('s, 'r, 'b) s3_lib \<Rightarrow> environ \<Rightarrow> string \<Rightarrow> event list \<times> (py_error + unit)" where
  "upload_model boto3 environ input_model_path =
     (let aws_access_key_id = environ_get environ ''AWS_ACCESS_KEY_ID'';
          aws_secret_access_key = environ_get environ ''AWS_SECRET_ACCESS_KEY'';
          endpoint_url = environ_get environ ''AWS_S3_ENDPOINT'';
          region_name = environ_get environ ''AWS_DEFAULT_REGION'';
          bucket_name = environ_get environ ''AWS_S3_BUCKET'';
          s3_key = environ_get environ ''S3_KEY'';
          t = [Boto3Session aws_access_key_id aws_secret_access_key]
      in (case Session boto3 aws_access_key_id aws_secret_access_key of
            Inl e \<Rightarrow> (t, Inl e)
          | Inr session \<Rightarrow>
              let t = t @ [S3Resource endpoint_url region_name]
              in (case resource boto3 session endpoint_url region_name of
                    Inl e \<Rightarrow> (t, Inl e)
                  | Inr s3_resource \<Rightarrow>
                      let t = t @ [S3Bucket bucket_name]
                      in (case Bucket boto3 s3_resource bucket_name of
                            Inl e \<Rightarrow> (t, Inl e)
                          | Inr bucket \<Rightarrow>
                              let t = t @ [Print (''Uploading '' @ str_of_opt s3_key),
                                           S3UploadFile input_model_path s3_key];
                                  (sent, r) = upload_file boto3 bucket input_model_path s3_key
                              in (t @ (if sent then [S3Request] else []), r)))))"

definition credential_variables :: "string list" where
  "credential_variables =
     [''AWS_ACCESS_KEY_ID'', ''AWS_SECRET_ACCESS_KEY'', ''AWS_S3_ENDPOINT'',
      ''AWS_DEFAULT_REGION'', ''AWS_S3_BUCKET'', ''S3_KEY'']"

text \<open>
  A run of the upload step fails before any request when it ends in an error and no
  request went out to the storage service.
\<close>

definition fails_before_request :: "event list \<times> (py_error + unit) \<Rightarrow> bool" where
  "fails_before_request out = (isl (snd out) \<and> S3Request \<notin> set (fst out))"

text \<open>
  A storage library for the examples. It follows the signatures of the library: the two
  credentials, the endpoint and the region are optional arguments whose default is
  \<^verbatim>\<open>None\<close>, so it accepts their absence; a bucket needs a name and an upload needs a
  key, so it raises on \<^verbatim>\<open>None\<close> there, before any request. An upload with a key
  sends its request, which succeeds.
\<close>

definition optional_args_s3 :: "(unit, unit, string) s3_lib" where
  "optional_args_s3 =
     \<lparr>Session = (\<lambda>k s. Inr ()),
      resource = (\<lambda>s e r. Inr ()),
      Bucket = (\<lambda>r n. case n of None \<Rightarrow> Inl (ValueError ''Required parameter name not set'')
                       | Some b \<Rightarrow> Inr b),
      upload_file = (\<lambda>b p k. case k of None \<Rightarrow> (False, Inl (LibraryError ''ParamValidationError''))
                              | Some key \<Rightarrow> (True, Inr ()))\<rparr>"

definition full_environ :: environ where
  "full_environ =
     [''AWS_ACCESS_KEY_ID'' \<mapsto> ''key'', ''AWS_SECRET_ACCESS_KEY'' \<mapsto> ''secret'',
      ''AWS_S3_ENDPOINT'' \<mapsto> ''https://minio.example:9000'', ''AWS_DEFAULT_REGION'' \<mapsto> ''us-east-1'',
      ''AWS_S3_BUCKET'' \<mapsto> ''models'', ''S3_KEY'' \<mapsto> ''models/fraud/1/model.onnx'']"

subsection \<open>The training step: tables and arrays\<close>

text \<open>
  A data frame as \<^verbatim>\<open>pd.read_csv\<close> returns it: the names of the header and the rows
  below it. The cells of the eight columns are numbers. A data frame is rectangular: every
  row has one cell per column.
\<close>

record 'a dataframe =
  columns :: "string list"
  df_values :: "'a list list"

definition rectangular :: "'a dataframe \<Rightarrow> bool" where
  "rectangular df = list_all (\<lambda>r. length r = length (columns df)) (df_values df)"

text \<open>
  \<^verbatim>\<open>df.iloc[:, idx]\<close> with a list of positions: all rows, the columns at these
  positions in the order given. A position past the last column raises \<^verbatim>\<open>IndexError\<close>.
\<close>

definition iloc_columns :: "'a dataframe \<Rightarrow> nat list \<Rightarrow> py_error + 'a dataframe" where
  "iloc_columns df idx =
     (if list_all (\<lambda>i. i < length (columns df)) idx
      then Inr \<lparr>columns = map (\<lambda>i. columns df ! i) idx,
                df_values = map (\<lambda>r. map (\<lambda>i. r ! i) idx) (df_values df)\<rparr>
      else Inl (IndexError ''positional indexers are out-of-bounds''))"

text \<open>\<^verbatim>\<open>ndarray.ravel()\<close> of a matrix, and \<^verbatim>\<open>np.unique\<close>: the distinct values in ascending order.\<close>

definition ravel :: "'a list list \<Rightarrow> 'a list" where
  "ravel m = concat m"

definition unique :: "real list \<Rightarrow> real list" where
  "unique xs = sort (remdups xs)"

definition feature_indexes :: "nat list" where
  "feature_indexes = [1, 2, 4, 5, 6]"

definition label_indexes :: "nat list" where
  "label_indexes = [7]"

text \<open>
  The library of the training step, a parameter of the model: the CSV reader, the
  scaler's fitting (from a matrix to the fitted parameters) and its application of fitted
  parameters to a matrix, the network's training, the conversion of the trained network.
  Numbers are reals: the model computes exactly where the program rounds.
\<close>

datatype layer =
    Dense nat "string option" "nat option"
  | Dropout real
  | BatchNormalization
  | Activation string

record keras_model =
  layers :: "layer list"
  optimizer :: "string option"
  loss :: "string option"
  metrics :: "string list"

text \<open>The arguments of one call of \<^verbatim>\<open>model.fit\<close>, the network first.\<close>

record fit_call =
  fit_model :: keras_model
  fit_x :: "real list list"
  fit_y :: "real dataframe"
  fit_epochs :: nat
  fit_validation_data :: "real list list \<times> real dataframe"
  fit_verbose :: bool
  fit_class_weight :: "nat \<rightharpoonup> real"

record ('p, 'm, 'o) ml_lib =
  read_csv :: "string \<Rightarrow> py_error + real dataframe"
  scaler_fit :: "real list list \<Rightarrow> py_error + 'p"
  scaler_apply :: "'p \<Rightarrow> real list list \<Rightarrow> py_error + real list list"
  model_fit :: "fit_call \<Rightarrow> py_error + 'm"
  from_keras :: "'m \<Rightarrow> py_error + 'o"

text \<open>Lines 65 to 71: both files read, labels and features sliced from each.\<close>

record data_split =
  train_X :: "real dataframe"
  train_y :: "real dataframe"
  val_X :: "real dataframe"
  val_y :: "real dataframe"

definition load_data :: "('p, 'm, 'o) ml_lib \<Rightarrow> string \<Rightarrow> string \<Rightarrow> py_error + data_split" where
  "load_data lib train_data_input_path validate_data_input_path =
     bind_err (read_csv lib train_data_input_path) (\<lambda>X_train.
     bind_err (iloc_columns X_train label_indexes) (\<lambda>y_train.
     bind_err (iloc_columns X_train feature_indexes) (\<lambda>X_train.
     bind_err (read_csv lib validate_data_input_path) (\<lambda>X_val.
     bind_err (iloc_columns X_val label_indexes) (\<lambda>y_val.
     bind_err (iloc_columns X_val feature_indexes) (\<lambda>X_val.
       Inr \<lparr>train_X = X_train, train_y = y_train, val_X = X_val, val_y = y_val\<rparr>))))))"

subsection \<open>The training step: scaler, class weights, network\<close>

text \<open>
  A \<^verbatim>\<open>StandardScaler\<close> object holds its fitted parameters, none when new.
  \<^verbatim>\<open>fit_transform\<close> fits the object on the matrix and returns the matrix transformed;
  \<^verbatim>\<open>transform\<close> applies the parameters the object holds and leaves the object as it is,
  raising \<^verbatim>\<open>NotFittedError\<close> on an object that was never fitted.
\<close>

definition StandardScaler :: "'p option" where
  "StandardScaler = None"

definition fit_transform ::
  "('p, 'm, 'o) ml_lib \<Rightarrow> 'p option \<Rightarrow> real list list \<Rightarrow> py_error + ('p option \<times> real list list)" where
  "fit_transform lib scaler X =
     bind_err (scaler_fit lib X) (\<lambda>p.
     bind_err (scaler_apply lib p X) (\<lambda>Xt. Inr (Some p, Xt)))"

definition transform ::
  "('p, 'm, 'o) ml_lib \<Rightarrow> 'p option \<Rightarrow> real list list \<Rightarrow> py_error + real list list" where
  "transform lib scaler X =
     (case scaler of None \<Rightarrow> Inl NotFittedError | Some p \<Rightarrow> scaler_apply lib p X)"

text \<open>
  The numbers of the class weights are binary64 floating-point numbers. \<open>float64 x\<close>
  is the binary64 number nearest to the real \<open>x\<close>, a tie going to the even significand:
  \<open>x\<close> is scaled to a significand of 53 bits, which is rounded to an integer. The
  exponent is not bounded here; binary64 bounds it, and agrees for magnitudes from 2 to
  the power -1022 up to 2 to the power 1024, which no number below leaves.
\<close>

definition round_half_even :: "real \<Rightarrow> int" where
  "round_half_even x =
     (let f = \<lfloor>x\<rfloor>; d = x - of_int f
      in if d < 1/2 then f else if 1/2 < d then f + 1 else if even f then f else f + 1)"

definition float64 :: "real \<Rightarrow> real" where
  "float64 x =
     (if x = 0 then 0
      else of_int (round_half_even (x / 2 powr of_int (\<lfloor>log 2 \<bar>x\<bar>\<rfloor> - 52)))
             * 2 powr of_int (\<lfloor>log 2 \<bar>x\<bar>\<rfloor> - 52))"

text \<open>
  Modelled from the spec: \<^verbatim>\<open>sklearn.utils.class_weight.compute_class_weight\<close> with
  the rule \<^verbatim>\<open>'balanced'\<close> is library code, absent from the sources. The spec gives
  its rule: the weight of class \<open>c\<close> is \<open>n_samples / (n_classes \<times> count[c])\<close>, where
  \<open>n_samples\<close> is the length of \<open>y\<close>, \<open>n_classes\<close> the number of distinct
  labels in \<open>y\<close>, and \<open>count[c]\<close> the number of occurrences of \<open>c\<close> in
  \<open>y\<close>. The library computes the rule in binary64: the three integers become
  floating-point numbers, and the product and the quotient are rounded. The result lists
  the weights in the order of \<open>classes\<close>; a class that does not occur in \<open>y\<close> is
  a \<^verbatim>\<open>ValueError\<close>.
\<close>

definition compute_class_weight_balanced :: "real list \<Rightarrow> real list \<Rightarrow> py_error + real list" where
  "compute_class_weight_balanced classes y =
     (if list_all (\<lambda>c. c \<in> set y) classes
      then Inr (map (\<lambda>c. float64 (float64 (real (length y)) /
                            float64 (float64 (real (length (remdups y))) *
                                     float64 (real (count_list y c)))))
                  classes)
      else Inl (ValueError ''classes should have valid labels that are in y''))"

text \<open>\<^verbatim>\<open>{i: w[i] for i in range(len(w))}\<close>: the dictionary from each position to the entry there.\<close>

definition index_dict :: "'a list \<Rightarrow> (nat \<rightharpoonup> 'a)" where
  "index_dict w = map_of (map (\<lambda>i. (i, w ! i)) [0..<length w])"

text \<open>
  Line 85: the weights of the classes of the training labels, one for each distinct label,
  the labels in ascending order.
\<close>

definition class_weight_array :: "real dataframe \<Rightarrow> py_error + real list" where
  "class_weight_array y_train =
     compute_class_weight_balanced (unique (ravel (df_values y_train)))
       (ravel (df_values y_train))"

text \<open>Lines 85 and 86: these weights, then made a dictionary.\<close>

definition class_weights_of :: "real dataframe \<Rightarrow> py_error + (nat \<rightharpoonup> real)" where
  "class_weights_of y_train =
     bind_err (class_weight_array y_train) (\<lambda>class_weights.
       Inr (index_dict class_weights))"

text \<open>Lines 90 to 102: the network, layer by layer, then compiled.\<close>

definition Sequential :: keras_model where
  "Sequential = \<lparr>layers = [], optimizer = None, loss = None, metrics = []\<rparr>"

definition add :: "keras_model \<Rightarrow> layer \<Rightarrow> keras_model" where
  "add m l = m\<lparr>layers := layers m @ [l]\<rparr>"

definition compile :: "keras_model \<Rightarrow> string \<Rightarrow> string \<Rightarrow> string list \<Rightarrow> keras_model" where
  "compile m opt l ms = m\<lparr>optimizer := Some opt, loss := Some l, metrics := ms\<rparr>"

definition build_model :: keras_model where
  "build_model =
     (let model = Sequential;
          model = add model (Dense 32 (Some ''relu'') (Some (length feature_indexes)));
          model = add model (Dropout 0.2);
          model = add model (Dense 32 None None);
          model = add model BatchNormalization;
          model = add model (Activation ''relu'');
          model = add model (Dropout 0.2);
          model = add model (Dense 32 None None);
          model = add model BatchNormalization;
          model = add model (Activation ''relu'');
          model = add model (Dropout 0.2);
          model = add model (Dense 1 (Some ''sigmoid'') None)
      in compile model ''adam'' ''binary_crossentropy'' [''accuracy''])"

text \<open>
  The whole step. Its result holds what the step wrote and what it trained on: the scaler
  object pickled to \<^verbatim>\<open>artifact/scaler.pkl\<close>, the arguments of \<^verbatim>\<open>model.fit\<close>,
  and the converted network saved at the output path.
\<close>

record ('p, 'o) trained =
  scaler_pkl :: "'p option"
  fit_args :: fit_call
  saved :: "string \<times> 'o"

definition train_model ::
  "('p, 'm, 'o) ml_lib \<Rightarrow> string \<Rightarrow> string \<Rightarrow> string \<Rightarrow> py_error + ('p, 'o) trained" where
  "train_model lib train_data_input_path validate_data_input_path model_output_path =
     bind_err (load_data lib train_data_input_path validate_data_input_path) (\<lambda>d.
     let scaler = StandardScaler in
     bind_err (fit_transform lib scaler (df_values (train_X d))) (\<lambda>(scaler, X_train_scaled).
     let pickled = scaler in
     bind_err (class_weights_of (train_y d)) (\<lambda>class_weights.
     let model = build_model;
         epochs = 2 in
     bind_err (transform lib scaler (df_values (val_X d))) (\<lambda>X_val_scaled.
     bind_err (model_fit lib
                 \<lparr>fit_model = model, fit_x = X_train_scaled, fit_y = train_y d, fit_epochs = epochs,
                  fit_validation_data = (X_val_scaled, val_y d), fit_verbose = True,
                  fit_class_weight = class_weights\<rparr>) (\<lambda>trained_model.
     bind_err (from_keras lib trained_model) (\<lambda>model_proto.
       Inr \<lparr>scaler_pkl = pickled,
            fit_args = \<lparr>fit_model = model, fit_x = X_train_scaled, fit_y = train_y d, fit_epochs = epochs,
                        fit_validation_data = (X_val_scaled, val_y d), fit_verbose = True,
                        fit_class_weight = class_weights\<rparr>,
            saved = (model_output_path, model_proto)\<rparr>))))))"

text \<open>
  The blocks of a network: a block opens at each \<^verbatim>\<open>Dense\<close> layer and holds the
  layers up to the next one. The hidden blocks are all but the last.
\<close>

fun is_dense :: "layer \<Rightarrow> bool" where
  "is_dense (Dense _ _ _) = True"
| "is_dense _ = False"

fun blocks_from :: "layer list list \<Rightarrow> layer list \<Rightarrow> layer list list" where
  "blocks_from acc [] = acc"
| "blocks_from acc (l # ls) =
     (if is_dense l \<or> acc = [] then blocks_from (acc @ [[l]]) ls
      else blocks_from (butlast acc @ [last acc @ [l]]) ls)"

definition blocks :: "layer list \<Rightarrow> layer list list" where
  "blocks ls = blocks_from [] ls"

fun dense_units :: "layer list \<Rightarrow> nat list" where
  "dense_units [] = []"
| "dense_units (Dense n _ _ # ls) = n # dense_units ls"
| "dense_units (_ # ls) = dense_units ls"

fun activations :: "layer list \<Rightarrow> string list" where
  "activations [] = []"
| "activations (Dense _ (Some a) _ # ls) = a # activations ls"
| "activations (Activation a # ls) = a # activations ls"
| "activations (_ # ls) = activations ls"

fun dropout_rates :: "layer list \<Rightarrow> real list" where
  "dropout_rates [] = []"
| "dropout_rates (Dropout r # ls) = r # dropout_rates ls"
| "dropout_rates (_ # ls) = dropout_rates ls"

definition batch_normalized :: "layer list \<Rightarrow> bool" where
  "batch_normalized b = (BatchNormalization \<in> set b)"

text \<open>The hidden block the description asks for: 32 units, ReLU, batch normalization, dropout 0.2.\<close>

definition hidden_block_as_described :: "layer list \<Rightarrow> bool" where
  "hidden_block_as_described b =
     (dense_units b = [32] \<and> activations b = [''relu''] \<and> batch_normalized b
      \<and> dropout_rates b = [0.2])"

subsection \<open>Inputs for the examples\<close>

definition csv_header :: "string list" where
  "csv_header =
     [''distance_from_home'', ''distance_from_last_transaction'',
      ''ratio_to_median_purchase_price'', ''repeat_retailer'', ''used_chip'',
      ''used_pin_number'', ''online_order'', ''fraud'']"

definition train_csv :: "real dataframe" where
  "train_csv =
     \<lparr>columns = csv_header,
      df_values = [[57, 2, 3, 1, 1, 0, 0, 0],
                   [10, 4, 1, 1, 0, 0, 0, 0],
                   [5, 6, 5, 1, 0, 0, 1, 0],
                   [2, 8, 7, 1, 0, 1, 1, 1]]\<rparr>"

definition validate_csv :: "real dataframe" where
  "validate_csv =
     \<lparr>columns = csv_header,
      df_values = [[20, 9, 2, 1, 1, 0, 1, 1],
                   [3, 1, 4, 0, 0, 0, 0, 0]]\<rparr>"

text \<open>
  A library for the examples. It reads the two tables above; its scaler's parameters are
  the means of the columns, which it subtracts; training and conversion succeed.
\<close>

definition column_means :: "real list list \<Rightarrow> real list" where
  "column_means X =
     (case X of [] \<Rightarrow> []
      | r # rs \<Rightarrow> map (\<lambda>j. sum_list (map (\<lambda>row. row ! j) X) / real (length X)) [0..<length r])"

definition centre :: "real list \<Rightarrow> real list list \<Rightarrow> real list list" where
  "centre p X = map (\<lambda>row. map (\<lambda>(v, m). v - m) (zip row p)) X"

definition example_ml :: "(real list, fit_call, string) ml_lib" where
  "example_ml =
     \<lparr>read_csv = (\<lambda>path. if path = ''train.csv'' then Inr train_csv
                          else if path = ''validate.csv'' then Inr validate_csv
                          else Inl (LibraryError ''FileNotFoundError'')),
      scaler_fit = (\<lambda>X. Inr (column_means X)),
      scaler_apply = (\<lambda>p X. Inr (centre p X)),
      model_fit = (\<lambda>c. Inr c),
      from_keras = (\<lambda>m. Inr ''model_proto'')\<rparr>"

text \<open>A label column of 50 transactions, 11 of them frauds.\<close>

definition labels_39_11 :: "real dataframe" where
  "labels_39_11 = \<lparr>columns = [''fraud''], df_values = replicate 39 [0] @ replicate 11 [1]\<rparr>"

text \<open>The full environment of the upload step, and the same without the endpoint, or without the key.\<close>

definition environ_without_endpoint :: environ where
  "environ_without_endpoint = full_environ(''AWS_S3_ENDPOINT'' := None)"

definition environ_without_key :: environ where
  "environ_without_key = full_environ(''S3_KEY'' := None)"

text \<open>The label column of the training table above.\<close>

definition example_labels :: "real dataframe" where
  "example_labels = \<lparr>columns = [''fraud''], df_values = [[0], [0], [0], [1]]\<rparr>"

text \<open>An environment with the endpoint of the pipeline service, and the two service-account files.\<close>

definition kubeflow_environ :: environ where
  "kubeflow_environ = [''KUBEFLOW_ENDPOINT'' \<mapsto> ''https://ds-pipeline.project.svc:8443'']"

definition service_account_files :: files where
  "service_account_files =
     [''/run/secrets/kubernetes.io/serviceaccount/token'' \<mapsto> ''abc123'',
      ''/run/secrets/kubernetes.io/serviceaccount/service-ca.crt'' \<mapsto> ''-----BEGIN CERTIFICATE-----'']"

definition only_ca_cert_file :: files where
  "only_ca_cert_file =
     [''/run/secrets/kubernetes.io/serviceaccount/service-ca.crt'' \<mapsto> ''-----BEGIN CERTIFICATE-----'']"

section \<open>Properties\<close>

subsection \<open>Auxiliary facts\<close>

lemma bind_err_simps [simp]:
  "bind_err (Inl e) f = Inl e"
  "bind_err (Inr a) f = f a"
  by (simp_all add: bind_err_def)

lemma bind_err_Inr_iff: "bind_err m f = Inr v \<longleftrightarrow> (\<exists>a. m = Inr a \<and> f a = Inr v)"
  by (cases m) simp_all

text \<open>\<open>str_contains\<close> is the substring relation.\<close>

lemma str_contains_sublist: "str_contains sub s \<longleftrightarrow> sublist sub s"
  by (induction s) (auto simp: sublist_Cons_right)

lemma str_contains_iff: "str_contains sub s \<longleftrightarrow> (\<exists>ps ss. s = ps @ sub @ ss)"
  by (simp add: str_contains_sublist sublist_def)

text \<open>The pipeline function raises nothing, and these are its three tasks.\<close>

lemma pipeline_tasks:
  "pipeline = Inr
     [\<lparr>task_name = ''get_data'',
       task_outputs = [''train_data_output_path'', ''validate_data_output_path''],
       task_inputs = [], task_env = [], task_secret_env = []\<rparr>,
      \<lparr>task_name = ''train_model'', task_outputs = [''model_output_path''],
       task_inputs =
         [(''train_data_input_path'',
           \<lparr>producer = ''get_data'', output_key = ''train_data_output_path''\<rparr>),
          (''validate_data_input_path'',
           \<lparr>producer = ''get_data'', output_key = ''validate_data_output_path''\<rparr>)],
       task_env = [], task_secret_env = []\<rparr>,
      \<lparr>task_name = ''upload_model'', task_outputs = [],
       task_inputs =
         [(''input_model_path'', \<lparr>producer = ''train_model'', output_key = ''model_output_path''\<rparr>)],
       task_env = [(''S3_KEY'', ''models/fraud/1/model.onnx'')],
       task_secret_env =
         [(''frauddetection-storage'',
           [(''AWS_ACCESS_KEY_ID'', ''AWS_ACCESS_KEY_ID''),
            (''AWS_SECRET_ACCESS_KEY'', ''AWS_SECRET_ACCESS_KEY''),
            (''AWS_DEFAULT_REGION'', ''AWS_DEFAULT_REGION''),
            (''AWS_S3_BUCKET'', ''AWS_S3_BUCKET''),
            (''AWS_S3_ENDPOINT'', ''AWS_S3_ENDPOINT'')])]\<rparr>]"
  by (simp add: pipeline_def call_component_def outputs_def
      get_data_component_def train_model_component_def upload_model_component_def
      set_env_variable_def use_secret_as_env_def Let_def)

lemma iloc_features:
  "length (columns df) = 8 \<Longrightarrow>
   iloc_columns df feature_indexes =
     Inr \<lparr>columns = map (\<lambda>i. columns df ! i) [1, 2, 4, 5, 6],
          df_values = map (\<lambda>r. [r ! 1, r ! 2, r ! 4, r ! 5, r ! 6]) (df_values df)\<rparr>"
  by (simp add: iloc_columns_def feature_indexes_def)

lemma iloc_labels:
  "length (columns df) = 8 \<Longrightarrow>
   iloc_columns df label_indexes =
     Inr \<lparr>columns = [columns df ! 7], df_values = map (\<lambda>r. [r ! 7]) (df_values df)\<rparr>"
  by (simp add: iloc_columns_def label_indexes_def)

lemma example_files [simp]:
  "only_ca_cert_file sa_token_path = None"
  "only_ca_cert_file sa_ca_cert = Some ''-----BEGIN CERTIFICATE-----''"
  "service_account_files sa_token_path = Some ''abc123''"
  "kubeflow_environ ''KUBEFLOW_ENDPOINT'' = Some ''https://ds-pipeline.project.svc:8443''"
  by (simp_all add: only_ca_cert_file_def service_account_files_def sa_token_path_def
      sa_ca_cert_def kubeflow_environ_def)

lemma unique_props: "distinct (unique ys)" "sorted (unique ys)" "set (unique ys) = set ys"
  "length (unique ys) = length (remdups ys)"
  by (simp_all add: unique_def)

lemma index_dict_nth: "index_dict w i = (if i < length w then Some (w ! i) else None)"
proof -
  have "map_of (map (\<lambda>i. (i, w ! i)) [0..<n]) i = (if i < n then Some (w ! i) else None)" for n
    by (induction n) (auto simp: map_add_def less_Suc_eq split: option.splits)
  then show ?thesis by (simp add: index_dict_def)
qed

lemma round_half_even_error: "\<bar>of_int (round_half_even x) - x\<bar> \<le> 1/2"
  unfolding round_half_even_def Let_def by (auto; linarith)

lemma round_half_even_of_int [simp]: "round_half_even (of_int i) = i"
  by (simp add: round_half_even_def)

lemma float64_rel_error:
  assumes "0 < x"
  shows "\<bar>float64 x - x\<bar> \<le> x / 2 ^ 53"
proof -
  define L where "L = \<lfloor>log 2 \<bar>x\<bar>\<rfloor>"
  define s :: real where "s = 2 powr of_int (L - 52)"
  have s: "0 < s" by (simp add: s_def)
  have "(2::real) powr of_int L \<le> x"
    using assms floor_log_eq_powr_iff [of x 2 L] by (simp add: L_def)
  moreover have "s = 2 powr of_int L / 2 ^ 52"
    by (simp add: s_def powr_diff)
  ultimately have sx: "s \<le> x / 2 ^ 52"
    by (simp add: divide_right_mono)
  have "float64 x - x = (of_int (round_half_even (x / s)) - x / s) * s"
    using assms s by (simp add: float64_def L_def s_def algebra_simps)
  then have "\<bar>float64 x - x\<bar> = \<bar>of_int (round_half_even (x / s)) - x / s\<bar> * s"
    using s by (simp add: abs_mult)
  also have "\<dots> \<le> 1/2 * s"
    using s round_half_even_error [of "x / s"] by (intro mult_right_mono) auto
  also have "\<dots> \<le> 1/2 * (x / 2 ^ 52)"
    using sx by simp
  also have "\<dots> = x / 2 ^ 53" by simp
  finally show ?thesis .
qed

lemma float64_scaled:
  assumes "0 < x" and "2 ^ 52 \<le> x * 2 ^ k" and "x * 2 ^ k < 2 ^ 53"
  shows "float64 x = of_int (round_half_even (x * 2 ^ k)) / 2 ^ k"
proof -
  have p: "(2::real) powr (52 - real k) = 2 ^ 52 / 2 ^ k" "(2::real) powr (53 - real k) = 2 ^ 53 / 2 ^ k"
    by (simp_all add: powr_diff powr_realpow)
  have "(2::real) powr of_int (52 - int k) \<le> x \<and> x < 2 powr (of_int (52 - int k) + 1)"
    using assms(2,3) by (simp add: p field_simps)
  then have "\<lfloor>log 2 \<bar>x\<bar>\<rfloor> = 52 - int k"
    using assms(1) floor_log_eq_powr_iff [of x 2 "52 - int k"] by simp
  moreover have "(2::real) powr of_int (- int k) = 1 / 2 ^ k"
    by (simp add: powr_minus powr_realpow inverse_eq_divide)
  ultimately show ?thesis
    using assms(1) by (simp add: float64_def)
qed

lemma float64_of_nat:
  assumes "m < 2 ^ 53"
  shows "float64 (real m) = real m"
proof (cases "m = 0")
  case True
  then show ?thesis by (simp add: float64_def)
next
  case False
  define L where "L = nat \<lfloor>log 2 (real m)\<rfloor>"
  have m: "0 < real m" "1 \<le> real m" using False by simp_all
  have L0: "0 \<le> \<lfloor>log 2 (real m)\<rfloor>" using m by simp
  have b: "2 ^ L \<le> m" "m < 2 ^ (L + 1)"
    using floor_log_nat_eq_powr_iff [of 2 m L] False L0 by (simp_all add: L_def)
  have "2 ^ L < (2::nat) ^ 53" using b(1) assms by linarith
  then have L: "L < 53"
    using power_less_imp_less_exp [of "2::nat" L 53] by simp
  define k where "k = 52 - L"
  have kL: "L + k = 52" using L by (simp add: k_def)
  have "real m * 2 ^ k \<ge> 2 ^ L * 2 ^ k"
    using b(1) by (metis of_nat_le_iff of_nat_numeral of_nat_power mult_right_mono zero_le_numeral zero_le_power)
  moreover have "(2::real) ^ L * 2 ^ k = 2 ^ (L + k)"
    by (simp only: power_add)
  ultimately have lo: "2 ^ 52 \<le> real m * 2 ^ k"
    by (simp only: kL)
  have "real m * 2 ^ k < 2 ^ (L + 1) * 2 ^ k"
    using b(2) by (metis of_nat_less_iff of_nat_numeral of_nat_power mult_strict_right_mono zero_less_numeral zero_less_power)
  moreover have "(2::real) ^ (L + 1) * 2 ^ k = 2 ^ (L + 1 + k)"
    by (simp only: power_add)
  moreover have "L + 1 + k = 53" using kL by simp
  ultimately have hi: "real m * 2 ^ k < 2 ^ 53"
    by (simp only:)
  have "real m * 2 ^ k = of_int (int m * 2 ^ k)" by simp
  then have "round_half_even (real m * 2 ^ k) = int m * 2 ^ k"
    by (metis round_half_even_of_int)
  then show ?thesis
    using float64_scaled [OF m(1) lo hi] by simp
qed

lemma float64_numerals:
  "float64 50 = 50" "float64 2 = 2" "float64 39 = 39" "float64 11 = 11" "float64 78 = 78"
  "float64 22 = 22"
  using float64_of_nat [of 50] float64_of_nat [of 2] float64_of_nat [of 39]
    float64_of_nat [of 11] float64_of_nat [of 78] float64_of_nat [of 22]
  by simp_all

lemma float64_50_78: "float64 (50 / 78) = 5773845676116021 / 2 ^ 53"
proof -
  have "round_half_even (50 / 78 * 2 ^ 53) = 5773845676116021"
    by (simp add: round_half_even_def)
  then show ?thesis
    using float64_scaled [of "50 / 78" 53] by simp
qed

lemma float64_50_22: "float64 (50 / 22) = 5117726849284655 / 2 ^ 51"
proof -
  have "round_half_even (50 / 22 * 2 ^ 51) = 5117726849284655"
    by (simp add: round_half_even_def)
  then show ?thesis
    using float64_scaled [of "50 / 22" 51] by simp
qed

lemma count_list_replicate: "count_list (replicate n x) y = (if x = y then n else 0)"
  by (induction n) auto

lemma concat_replicate_single: "concat (replicate n [x]) = replicate n x"
  by (induction n) auto

lemma labels_39_11_facts:
  "ravel (df_values labels_39_11) = replicate 39 0 @ replicate 11 1"
  "unique (replicate 39 0 @ replicate 11 1) = [0, 1]"
  "length (remdups (replicate 39 0 @ replicate 11 (1::real))) = 2"
  "count_list (replicate 39 0 @ replicate 11 1) (0::real) = 39"
  "count_list (replicate 39 0 @ replicate 11 1) (1::real) = 11"
proof -
  have s: "set (replicate 39 0 @ replicate 11 (1::real)) = {0, 1}"
    by auto
  show "ravel (df_values labels_39_11) = replicate 39 0 @ replicate 11 1"
    by (simp add: labels_39_11_def ravel_def concat_replicate_single)
  show "unique (replicate 39 0 @ replicate 11 1) = [0, 1]"
    unfolding unique_def sorted_list_of_set_sort_remdups [symmetric] s by simp
  show "length (remdups (replicate 39 0 @ replicate 11 (1::real))) = 2"
    unfolding length_remdups_card_conv s by simp
  show "count_list (replicate 39 0 @ replicate 11 1) (0::real) = 39"
    "count_list (replicate 39 0 @ replicate 11 1) (1::real) = 11"
    by (simp_all add: count_list_replicate)
qed

lemma class_weight_array_eq:
  "class_weight_array y_train =
     Inr (map (\<lambda>c. float64 (float64 (real (length (ravel (df_values y_train)))) /
                      float64 (float64 (real (length (remdups (ravel (df_values y_train))))) *
                               float64 (real (count_list (ravel (df_values y_train)) c)))))
            (unique (ravel (df_values y_train))))"
  by (simp add: class_weight_array_def compute_class_weight_balanced_def unique_props
      list_all_iff)

lemma class_weights_of_eq:
  "class_weights_of y_train =
     Inr (index_dict (map (\<lambda>c. float64 (float64 (real (length (ravel (df_values y_train)))) /
                      float64 (float64 (real (length (remdups (ravel (df_values y_train))))) *
                               float64 (real (count_list (ravel (df_values y_train)) c)))))
            (unique (ravel (df_values y_train)))))"
  by (simp add: class_weights_of_def class_weight_array_eq)

text \<open>
  With fewer than \<open>2\<^sup>2\<^sup>6\<close> labels the integers of the rule and their product are
  binary64 numbers, so the weight is the quotient of the rule, rounded once.
\<close>

lemma balanced_weight_rounded_once:
  fixes ys :: "real list"
  assumes n: "length ys < 2 ^ 26" and c: "c \<in> set ys"
  shows "float64 (float64 (real (length ys)) /
           float64 (float64 (real (length (remdups ys))) * float64 (real (count_list ys c))))
         = float64 (real (length ys) / (real (length (remdups ys)) * real (count_list ys c)))"
proof -
  have k: "length (remdups ys) \<le> length ys" by (rule length_remdups_leq)
  have m: "count_list ys c \<le> length ys" by (rule count_le_length)
  have "length (remdups ys) * count_list ys c \<le> length ys * length ys"
    using k m by (rule mult_le_mono)
  also have "\<dots> < 2 ^ 26 * 2 ^ 26"
    using n by (intro mult_strict_mono) simp_all
  finally have p: "length (remdups ys) * count_list ys c < 2 ^ 53" by simp
  have "(2::nat) ^ 26 \<le> 2 ^ 53" by simp
  with n have b1: "length ys < 2 ^ 53" by (rule less_le_trans)
  from k b1 have b2: "length (remdups ys) < 2 ^ 53" by (rule le_less_trans)
  from m b1 have b3: "count_list ys c < 2 ^ 53" by (rule le_less_trans)
  note b = b1 b2 b3
  have "float64 (real (length ys)) = real (length ys)"
    "float64 (real (length (remdups ys))) = real (length (remdups ys))"
    "float64 (real (count_list ys c)) = real (count_list ys c)"
    by (rule float64_of_nat [OF b(1)], rule float64_of_nat [OF b(2)],
        rule float64_of_nat [OF b(3)])
  moreover have "float64 (real (length (remdups ys) * count_list ys c))
      = real (length (remdups ys) * count_list ys c)"
    using p by (rule float64_of_nat)
  ultimately show ?thesis by simp
qed

lemma balanced_sum:
  fixes ys :: "real list"
  shows "(\<Sum>c\<leftarrow>unique ys. real (length ys) / (real (length (unique ys)) * real (count_list ys c))
            * real (count_list ys c)) = real (length ys)"
proof (cases "ys = []")
  case True
  then show ?thesis by (simp add: unique_def)
next
  case False
  let ?k = "length (unique ys)"
  have k: "?k \<noteq> 0" using False unique_props(3)[of ys] by (metis length_0_conv set_empty)
  have "(\<Sum>c\<leftarrow>unique ys. real (length ys) / (real ?k * real (count_list ys c)) * real (count_list ys c))
        = (\<Sum>c\<leftarrow>unique ys. real (length ys) / real ?k)"
  proof (rule arg_cong[where f = sum_list], rule map_cong[OF refl])
    fix c assume "c \<in> set (unique ys)"
    then have "count_list ys c \<noteq> 0" by (simp add: unique_props count_list_0_iff)
    then show "real (length ys) / (real ?k * real (count_list ys c)) * real (count_list ys c)
        = real (length ys) / real ?k" by simp
  qed
  also have "\<dots> = real ?k * (real (length ys) / real ?k)"
    by (simp add: sum_list_triv)
  also have "\<dots> = real (length ys)" using k by simp
  finally show ?thesis .
qed

text \<open>The sum of weight times count, for weights that are the rule's quotients rounded.\<close>

lemma balanced_sum_rounded:
  fixes ys :: "real list"
  defines "q \<equiv> \<lambda>c. real (length ys) / (real (length (unique ys)) * real (count_list ys c))"
  shows "\<bar>(\<Sum>c\<leftarrow>unique ys. float64 (q c) * real (count_list ys c)) - real (length ys)\<bar>
           \<le> real (length ys) / 2 ^ 53"
proof -
  let ?cl = "unique ys"
  let ?m = "\<lambda>c. real (count_list ys c)"
  have exact: "(\<Sum>c\<leftarrow>?cl. q c * ?m c) = real (length ys)"
    unfolding q_def by (rule balanced_sum)
  have pos: "0 < q c" if "c \<in> set ?cl" for c
  proof -
    from that have "c \<in> set ys" by (simp add: unique_props)
    then have "0 < count_list ys c" "0 < length ys" "0 < length ?cl"
      by (auto simp: count_list_0_iff unique_props length_remdups_card_conv card_gt_0_iff
          intro: Nat.gr0I)
    then show ?thesis by (simp add: q_def)
  qed
  have "(\<Sum>c\<leftarrow>?cl. float64 (q c) * ?m c) - real (length ys)
      = (\<Sum>c\<leftarrow>?cl. float64 (q c) * ?m c) - (\<Sum>c\<leftarrow>?cl. q c * ?m c)"
    by (simp add: exact)
  also have "\<dots> = (\<Sum>c\<leftarrow>?cl. (float64 (q c) - q c) * ?m c)"
    by (simp add: sum_list_subtractf left_diff_distrib)
  finally have "\<bar>(\<Sum>c\<leftarrow>?cl. float64 (q c) * ?m c) - real (length ys)\<bar>
      = \<bar>\<Sum>c\<leftarrow>?cl. (float64 (q c) - q c) * ?m c\<bar>"
    by simp
  also have "\<dots> \<le> (\<Sum>c\<leftarrow>?cl. \<bar>(float64 (q c) - q c) * ?m c\<bar>)"
    using sum_list_abs [of "map (\<lambda>c. (float64 (q c) - q c) * ?m c) ?cl"]
    by (simp add: comp_def)
  also have "\<dots> \<le> (\<Sum>c\<leftarrow>?cl. q c * ?m c * (1 / 2 ^ 53))"
  proof (rule sum_list_mono)
    fix c assume "c \<in> set ?cl"
    then have "\<bar>float64 (q c) - q c\<bar> \<le> q c / 2 ^ 53"
      by (intro float64_rel_error pos)
    then have "\<bar>float64 (q c) - q c\<bar> * ?m c \<le> q c / 2 ^ 53 * ?m c"
      by (rule mult_right_mono) simp
    then show "\<bar>(float64 (q c) - q c) * ?m c\<bar> \<le> q c * ?m c * (1 / 2 ^ 53)"
      by (simp add: abs_mult)
  qed
  also have "\<dots> = (\<Sum>c\<leftarrow>?cl. q c * ?m c) * (1 / 2 ^ 53)"
    by (rule sum_list_mult_const)
  also have "\<dots> = real (length ys) / 2 ^ 53"
    by (simp add: exact)
  finally show ?thesis .
qed

lemma full_environ_simps:
  "full_environ ''AWS_ACCESS_KEY_ID'' = Some ''key''"
  "full_environ ''AWS_SECRET_ACCESS_KEY'' = Some ''secret''"
  "full_environ ''AWS_S3_ENDPOINT'' = Some ''https://minio.example:9000''"
  "full_environ ''AWS_DEFAULT_REGION'' = Some ''us-east-1''"
  "full_environ ''AWS_S3_BUCKET'' = Some ''models''"
  "full_environ ''S3_KEY'' = Some ''models/fraud/1/model.onnx''"
  by (simp_all add: full_environ_def)

lemma fit_transform_Inr:
  "fit_transform lib sc X = Inr (sc', Xt) \<longleftrightarrow>
     (\<exists>p. scaler_fit lib X = Inr p \<and> scaler_apply lib p X = Inr Xt \<and> sc' = Some p)"
  by (auto simp: fit_transform_def bind_err_Inr_iff)

lemma train_model_Inr:
  assumes "train_model lib tp vp out = Inr r"
  shows "\<exists>d p Xt cw Xv proto.
    load_data lib tp vp = Inr d
    \<and> scaler_fit lib (df_values (train_X d)) = Inr p
    \<and> scaler_apply lib p (df_values (train_X d)) = Inr Xt
    \<and> class_weights_of (train_y d) = Inr cw
    \<and> scaler_apply lib p (df_values (val_X d)) = Inr Xv
    \<and> r = \<lparr>scaler_pkl = Some p,
          fit_args = \<lparr>fit_model = build_model, fit_x = Xt, fit_y = train_y d, fit_epochs = 2,
                      fit_validation_data = (Xv, val_y d), fit_verbose = True,
                      fit_class_weight = cw\<rparr>,
          saved = (out, proto)\<rparr>"
  using assms
  by (auto simp: train_model_def bind_err_Inr_iff Let_def fit_transform_Inr transform_def
      StandardScaler_def split: prod.splits)

lemma load_data_Inr:
  assumes "load_data lib tp vp = Inr d"
  shows "\<exists>tr va. read_csv lib tp = Inr tr \<and> read_csv lib vp = Inr va
    \<and> iloc_columns tr feature_indexes = Inr (train_X d)
    \<and> iloc_columns tr label_indexes = Inr (train_y d)
    \<and> iloc_columns va feature_indexes = Inr (val_X d)
    \<and> iloc_columns va label_indexes = Inr (val_y d)"
  using assms by (auto simp: load_data_def bind_err_Inr_iff)

lemma blocks_build_model:
  "blocks (layers build_model) =
     [[Dense 32 (Some ''relu'') (Some 5), Dropout 0.2],
      [Dense 32 None None, BatchNormalization, Activation ''relu'', Dropout 0.2],
      [Dense 32 None None, BatchNormalization, Activation ''relu'', Dropout 0.2],
      [Dense 1 (Some ''sigmoid'') None]]"
  by (simp add: build_model_def Sequential_def add_def compile_def blocks_def Let_def
      feature_indexes_def)

lemma example_load_data:
  "load_data example_ml ''train.csv'' ''validate.csv'' =
       Inr \<lparr>train_X = \<lparr>columns = [''distance_from_last_transaction'',
                                   ''ratio_to_median_purchase_price'', ''used_chip'',
                                   ''used_pin_number'', ''online_order''],
                        df_values = [[2, 3, 1, 0, 0], [4, 1, 0, 0, 0], [6, 5, 0, 0, 1],
                                     [8, 7, 0, 1, 1]]\<rparr>,
            train_y = example_labels,
            val_X = \<lparr>columns = [''distance_from_last_transaction'',
                                 ''ratio_to_median_purchase_price'', ''used_chip'',
                                 ''used_pin_number'', ''online_order''],
                      df_values = [[9, 2, 1, 0, 1], [1, 4, 0, 0, 0]]\<rparr>,
            val_y = \<lparr>columns = [''fraud''], df_values = [[1], [0]]\<rparr>\<rparr>"
  by (simp add: load_data_def example_ml_def iloc_features iloc_labels train_csv_def
      validate_csv_def csv_header_def example_labels_def)

lemma example_means:
  "column_means [[2, 3, 1, 0, 0], [4, 1, 0, 0, 0], [6, 5, 0, 0, 1], [8, 7, 0, 1, 1]]
     = [5, 4, 1/4, 1/4, 1/2]"
  by (simp add: column_means_def)

lemma example_ml_simps:
  "read_csv example_ml ''train.csv'' = Inr train_csv"
  "read_csv example_ml ''validate.csv'' = Inr validate_csv"
  "scaler_fit example_ml X = Inr (column_means X)"
  "scaler_apply example_ml q X = Inr (centre q X)"
  "model_fit example_ml c = Inr c"
  "from_keras example_ml c = Inr ''model_proto''"
  by (simp_all add: example_ml_def)

lemma example_run:
  "\<exists>r. train_model example_ml ''train.csv'' ''validate.csv'' ''model.onnx'' = Inr r"
  by (simp add: train_model_def example_load_data fit_transform_def transform_def
      example_ml_simps class_weights_of_eq Let_def StandardScaler_def)

lemma example_labels_unique:
  "ravel (df_values example_labels) = [0, 0, 0, 1]"
  "unique [0, 0, 0, 1] = [0, 1]"
  by (simp_all add: example_labels_def ravel_def unique_def)

subsection \<open>The submission routine\<close>

text \<open>
  C10. If the environment variable \<^verbatim>\<open>KUBEFLOW_ENDPOINT\<close> is unset, the submission
  routine raises a key-lookup error at once: its trace is empty, so nothing was printed,
  no file was tested or read, no client was made and no run was submitted.
\<close>

theorem main_without_endpoint:
  "environ ''KUBEFLOW_ENDPOINT'' = None \<Longrightarrow>
     main kfp environ fs = ([], Inl (KeyError ''KUBEFLOW_ENDPOINT''))"
  by (simp add: main_def environ_getitem_def)

theorem main_without_endpoint_witness:
  "(Map.empty :: environ) ''KUBEFLOW_ENDPOINT'' = None
   \<and> service_account_files sa_token_path = Some ''abc123''
   \<and> main accepting_kfp Map.empty service_account_files
       = ([], Inl (KeyError ''KUBEFLOW_ENDPOINT''))"
  using main_without_endpoint [of Map.empty accepting_kfp service_account_files]
  by simp

text \<open>
  C7. If the service-account token file does not exist, the submission routine raises
  (the key-lookup error when the endpoint is unset too, else the name error of the
  token that was never assigned), and it neither makes a client nor submits a run.
\<close>

theorem main_without_token_file:
  "fs sa_token_path = None \<Longrightarrow>
     snd (main kfp environ fs) =
       Inl (if environ ''KUBEFLOW_ENDPOINT'' = None then KeyError ''KUBEFLOW_ENDPOINT''
            else NameError ''bearer_token'')
     \<and> filter kfp_event (fst (main kfp environ fs)) = []"
  by (auto simp: main_def environ_getitem_def Let_def isfile_def split: option.splits)

theorem main_without_token_file_witness:
  "only_ca_cert_file sa_token_path = None
   \<and> snd (main accepting_kfp kubeflow_environ only_ca_cert_file) = Inl (NameError ''bearer_token'')
   \<and> filter kfp_event (fst (main accepting_kfp kubeflow_environ only_ca_cert_file)) = []"
  using main_without_token_file [of only_ca_cert_file accepting_kfp kubeflow_environ]
  by simp

text \<open>
  C6. In every execution of the submission routine, a client, when one is made, gets the
  CA certificate file if and only if that file exists and the endpoint contains
  \<^verbatim>\<open>svc\<close>; in every other case its certificate argument is \<^verbatim>\<open>None\<close>. A client is
  made exactly when the endpoint is set and the token file exists.
\<close>

theorem main_ca_certificate:
  "client_ca_certs (fst (main kfp environ fs)) =
     (case environ ''KUBEFLOW_ENDPOINT'' of
        None \<Rightarrow> []
      | Some kubeflow_endpoint \<Rightarrow>
          if isfile fs sa_token_path
          then [if isfile fs sa_ca_cert \<and> sublist ''svc'' kubeflow_endpoint
                then Some sa_ca_cert else None]
          else [])"
  by (auto simp: main_def environ_getitem_def Let_def isfile_def str_contains_sublist
      split: option.splits sum.splits)

subsection \<open>The pipeline definition\<close>

text \<open>
  C8. The pipeline definition sets \<^verbatim>\<open>S3_KEY\<close> to \<^verbatim>\<open>models/fraud/1/model.onnx\<close> on
  the upload task, and maps into its environment, from the secret
  \<^verbatim>\<open>frauddetection-storage\<close>, exactly the five credential variables, each under its
  own name. The other two tasks get no variable and no secret.
\<close>

theorem pipeline_upload_environment:
  "map_sum id (map (\<lambda>t. (task_name t, task_env t, task_secret_env t))) pipeline =
     Inr [(''get_data'', [], []),
          (''train_model'', [], []),
          (''upload_model'',
           [(''S3_KEY'', ''models/fraud/1/model.onnx'')],
           [(''frauddetection-storage'',
             map (\<lambda>v. (v, v))
               [''AWS_ACCESS_KEY_ID'', ''AWS_SECRET_ACCESS_KEY'', ''AWS_DEFAULT_REGION'',
                ''AWS_S3_BUCKET'', ''AWS_S3_ENDPOINT''])])]"
  by (simp add: pipeline_tasks)

text \<open>
  C9. The pipeline is a chain of three tasks. The two outputs of \<^verbatim>\<open>get_data\<close> are the
  two inputs of \<^verbatim>\<open>train_model\<close>, the one output of \<^verbatim>\<open>train_model\<close> is the input of
  \<^verbatim>\<open>upload_model\<close>, and there is no other artifact dependency.
\<close>

theorem pipeline_linear_chain:
  "map_sum id (map (\<lambda>t. (task_name t, task_outputs t))) pipeline =
     Inr [(''get_data'', [''train_data_output_path'', ''validate_data_output_path'']),
          (''train_model'', [''model_output_path'']),
          (''upload_model'', [])]
   \<and> map_sum id artifact_edges pipeline =
     Inr [(''get_data'', ''train_data_output_path'', ''train_model'', ''train_data_input_path''),
          (''get_data'', ''validate_data_output_path'', ''train_model'', ''validate_data_input_path''),
          (''train_model'', ''model_output_path'', ''upload_model'', ''input_model_path'')]"
  by (simp add: pipeline_tasks artifact_edges_def)

subsection \<open>The training step\<close>

text \<open>
  C5. For every pair of input files with the eight-column schema, the trainer takes the
  columns 1, 2, 4, 5, 6 as features and the column 7 as label, from the training file and
  from the validation file alike, row by row in the order of the file.
\<close>

theorem load_data_columns:
  assumes "read_csv lib train_data_input_path = Inr tr"
    and "read_csv lib validate_data_input_path = Inr va"
    and "length (columns tr) = 8" and "rectangular tr"
    and "length (columns va) = 8" and "rectangular va"
  shows "load_data lib train_data_input_path validate_data_input_path =
     Inr \<lparr>train_X = \<lparr>columns = map (\<lambda>i. columns tr ! i) [1, 2, 4, 5, 6],
                      df_values = map (\<lambda>r. [r ! 1, r ! 2, r ! 4, r ! 5, r ! 6]) (df_values tr)\<rparr>,
          train_y = \<lparr>columns = [columns tr ! 7], df_values = map (\<lambda>r. [r ! 7]) (df_values tr)\<rparr>,
          val_X = \<lparr>columns = map (\<lambda>i. columns va ! i) [1, 2, 4, 5, 6],
                    df_values = map (\<lambda>r. [r ! 1, r ! 2, r ! 4, r ! 5, r ! 6]) (df_values va)\<rparr>,
          val_y = \<lparr>columns = [columns va ! 7], df_values = map (\<lambda>r. [r ! 7]) (df_values va)\<rparr>\<rparr>"
  using assms by (simp add: load_data_def iloc_features iloc_labels)

theorem load_data_columns_witness:
  "read_csv example_ml ''train.csv'' = Inr train_csv
   \<and> read_csv example_ml ''validate.csv'' = Inr validate_csv
   \<and> length (columns train_csv) = 8 \<and> rectangular train_csv
   \<and> length (columns validate_csv) = 8 \<and> rectangular validate_csv
   \<and> load_data example_ml ''train.csv'' ''validate.csv'' =
       Inr \<lparr>train_X = \<lparr>columns = [''distance_from_last_transaction'',
                                   ''ratio_to_median_purchase_price'', ''used_chip'',
                                   ''used_pin_number'', ''online_order''],
                        df_values = [[2, 3, 1, 0, 0], [4, 1, 0, 0, 0], [6, 5, 0, 0, 1],
                                     [8, 7, 0, 1, 1]]\<rparr>,
            train_y = \<lparr>columns = [''fraud''], df_values = [[0], [0], [0], [1]]\<rparr>,
            val_X = \<lparr>columns = [''distance_from_last_transaction'',
                                 ''ratio_to_median_purchase_price'', ''used_chip'',
                                 ''used_pin_number'', ''online_order''],
                      df_values = [[9, 2, 1, 0, 1], [1, 4, 0, 0, 0]]\<rparr>,
            val_y = \<lparr>columns = [''fraud''], df_values = [[1], [0]]\<rparr>\<rparr>"
proof -
  have r: "read_csv example_ml ''train.csv'' = Inr train_csv"
    "read_csv example_ml ''validate.csv'' = Inr validate_csv"
    by (simp_all add: example_ml_def)
  have s: "length (columns train_csv) = 8" "rectangular train_csv"
    "length (columns validate_csv) = 8" "rectangular validate_csv"
    by (simp_all add: train_csv_def validate_csv_def csv_header_def rectangular_def)
  show ?thesis
    using load_data_columns [OF r(1) r(2) s] r s
    by (simp add: train_csv_def validate_csv_def csv_header_def)
qed

text \<open>
  C2. In every run of the trainer that returns, the scaler's parameters are those fitted
  on the feature matrix of the training file. They are what is pickled, and the same
  parameters transform the training features and the validation features handed to
  \<^verbatim>\<open>model.fit\<close>: the scaler is fitted once, on training data, and never on
  validation data.
\<close>

theorem scaler_fitted_on_training_only:
  assumes "train_model lib train_data_input_path validate_data_input_path model_output_path = Inr r"
  shows "\<exists>tr va Xtr Xva p.
      read_csv lib train_data_input_path = Inr tr
    \<and> iloc_columns tr feature_indexes = Inr Xtr
    \<and> read_csv lib validate_data_input_path = Inr va
    \<and> iloc_columns va feature_indexes = Inr Xva
    \<and> scaler_fit lib (df_values Xtr) = Inr p
    \<and> scaler_pkl r = Some p
    \<and> scaler_apply lib p (df_values Xtr) = Inr (fit_x (fit_args r))
    \<and> scaler_apply lib p (df_values Xva) = Inr (fst (fit_validation_data (fit_args r)))"
proof -
  from train_model_Inr [OF assms] obtain d p Xt cw Xv proto where
    d: "load_data lib train_data_input_path validate_data_input_path = Inr d"
    and p: "scaler_fit lib (df_values (train_X d)) = Inr p"
      "scaler_apply lib p (df_values (train_X d)) = Inr Xt"
      "scaler_apply lib p (df_values (val_X d)) = Inr Xv"
    and r: "r = \<lparr>scaler_pkl = Some p,
          fit_args = \<lparr>fit_model = build_model, fit_x = Xt, fit_y = train_y d, fit_epochs = 2,
                      fit_validation_data = (Xv, val_y d), fit_verbose = True,
                      fit_class_weight = cw\<rparr>,
          saved = (model_output_path, proto)\<rparr>"
    by (elim exE conjE) (rule that)
  from load_data_Inr [OF d] obtain tr va where "read_csv lib train_data_input_path = Inr tr"
    "read_csv lib validate_data_input_path = Inr va"
    "iloc_columns tr feature_indexes = Inr (train_X d)"
    "iloc_columns va feature_indexes = Inr (val_X d)"
    by (elim exE conjE) (rule that)
  note f = this
  have r': "scaler_pkl r = Some p" "fit_x (fit_args r) = Xt"
    "fst (fit_validation_data (fit_args r)) = Xv"
    by (simp_all add: r)
  show ?thesis
  proof (intro exI conjI)
    show "read_csv lib train_data_input_path = Inr tr" by fact
    show "iloc_columns tr feature_indexes = Inr (train_X d)" by fact
    show "read_csv lib validate_data_input_path = Inr va" by fact
    show "iloc_columns va feature_indexes = Inr (val_X d)" by fact
    show "scaler_fit lib (df_values (train_X d)) = Inr p" by fact
    show "scaler_pkl r = Some p" by fact
    show "scaler_apply lib p (df_values (train_X d)) = Inr (fit_x (fit_args r))"
      by (simp add: r' p)
    show "scaler_apply lib p (df_values (val_X d)) = Inr (fst (fit_validation_data (fit_args r)))"
      by (simp add: r' p)
  qed
qed

theorem scaler_fitted_on_training_only_witness:
  "map_sum id (\<lambda>r. (scaler_pkl r, fst (fit_validation_data (fit_args r))))
     (train_model example_ml ''train.csv'' ''validate.csv'' ''model.onnx'') =
   Inr (Some [5, 4, 1/4, 1/4, 1/2],
        [[4, -2, 3/4, -1/4, 1/2], [-4, 0, -1/4, -1/4, -1/2]])"
proof -
  from example_run obtain r where
    run: "train_model example_ml ''train.csv'' ''validate.csv'' ''model.onnx'' = Inr r" ..
  from scaler_fitted_on_training_only [OF run] obtain tr va Xtr Xva p where
    "read_csv example_ml ''train.csv'' = Inr tr"
    "iloc_columns tr feature_indexes = Inr Xtr"
    "read_csv example_ml ''validate.csv'' = Inr va"
    "iloc_columns va feature_indexes = Inr Xva"
    "scaler_fit example_ml (df_values Xtr) = Inr p"
    "scaler_pkl r = Some p"
    "scaler_apply example_ml p (df_values Xva) = Inr (fst (fit_validation_data (fit_args r)))"
    by (elim exE conjE) (rule that)
  then have "scaler_pkl r = Some [5, 4, 1/4, 1/4, 1/2]"
    "fst (fit_validation_data (fit_args r)) = [[4, -2, 3/4, -1/4, 1/2], [-4, 0, -1/4, -1/4, -1/2]]"
    by (auto simp: example_ml_simps iloc_features train_csv_def validate_csv_def csv_header_def
        example_means centre_def column_means_def)
  with run show ?thesis by simp
qed

text \<open>
  C3, as the description has it: every hidden block has 32 units, ReLU, batch
  normalization and dropout 0.2. The network the trainer builds is not so: its first
  hidden block has no batch normalization.
\<close>

theorem first_hidden_block_not_normalized:
  "\<not> list_all hidden_block_as_described (butlast (blocks (layers build_model)))"
  by (simp add: blocks_build_model hidden_block_as_described_def batch_normalized_def)

text \<open>
  C3, amended. The network the trainer builds has three hidden blocks of 32 units with ReLU
  and dropout 0.2 each. The first is the dense layer, with ReLU as its own activation, and
  the dropout; it has no batch normalization. The second and the third are the dense layer,
  the batch normalization, the ReLU activation and the dropout, in this order. Then comes
  a single sigmoid unit. The network is compiled with the binary cross-entropy loss and
  trained for exactly 2 epochs.
\<close>

theorem trained_network_architecture:
  assumes "train_model lib train_data_input_path validate_data_input_path model_output_path = Inr r"
  shows "layers (fit_model (fit_args r)) =
          [Dense 32 (Some ''relu'') (Some 5), Dropout 0.2,
           Dense 32 None None, BatchNormalization, Activation ''relu'', Dropout 0.2,
           Dense 32 None None, BatchNormalization, Activation ''relu'', Dropout 0.2,
           Dense 1 (Some ''sigmoid'') None]
       \<and> blocks (layers (fit_model (fit_args r))) =
          [[Dense 32 (Some ''relu'') (Some 5), Dropout 0.2],
           [Dense 32 None None, BatchNormalization, Activation ''relu'', Dropout 0.2],
           [Dense 32 None None, BatchNormalization, Activation ''relu'', Dropout 0.2],
           [Dense 1 (Some ''sigmoid'') None]]
       \<and> map (\<lambda>b. (dense_units b, activations b, batch_normalized b, dropout_rates b))
           (blocks (layers (fit_model (fit_args r)))) =
          [([32], [''relu''], False, [0.2]),
           ([32], [''relu''], True, [0.2]),
           ([32], [''relu''], True, [0.2]),
           ([1], [''sigmoid''], False, [])]
       \<and> loss (fit_model (fit_args r)) = Some ''binary_crossentropy''
       \<and> fit_epochs (fit_args r) = 2"
proof -
  from train_model_Inr [OF assms] obtain d p Xt cw Xv proto where
    "load_data lib train_data_input_path validate_data_input_path = Inr d"
    and r: "r = \<lparr>scaler_pkl = Some p,
          fit_args = \<lparr>fit_model = build_model, fit_x = Xt, fit_y = train_y d, fit_epochs = 2,
                      fit_validation_data = (Xv, val_y d), fit_verbose = True,
                      fit_class_weight = cw\<rparr>,
          saved = (model_output_path, proto)\<rparr>"
    by (elim exE conjE) (rule that)
  have "loss build_model = Some ''binary_crossentropy''"
    by (simp add: build_model_def compile_def Let_def)
  then have lo: "loss (fit_model (fit_args r)) = Some ''binary_crossentropy''"
    and ep: "fit_epochs (fit_args r) = 2"
    by (simp_all add: r)
  have "layers build_model =
          [Dense 32 (Some ''relu'') (Some 5), Dropout 0.2,
           Dense 32 None None, BatchNormalization, Activation ''relu'', Dropout 0.2,
           Dense 32 None None, BatchNormalization, Activation ''relu'', Dropout 0.2,
           Dense 1 (Some ''sigmoid'') None]"
    by (simp add: build_model_def Sequential_def add_def compile_def Let_def
        feature_indexes_def)
  then have la: "layers (fit_model (fit_args r)) =
          [Dense 32 (Some ''relu'') (Some 5), Dropout 0.2,
           Dense 32 None None, BatchNormalization, Activation ''relu'', Dropout 0.2,
           Dense 32 None None, BatchNormalization, Activation ''relu'', Dropout 0.2,
           Dense 1 (Some ''sigmoid'') None]"
    by (simp add: r)
  have bl: "blocks (layers (fit_model (fit_args r))) =
          [[Dense 32 (Some ''relu'') (Some 5), Dropout 0.2],
           [Dense 32 None None, BatchNormalization, Activation ''relu'', Dropout 0.2],
           [Dense 32 None None, BatchNormalization, Activation ''relu'', Dropout 0.2],
           [Dense 1 (Some ''sigmoid'') None]]"
    by (simp add: r blocks_build_model)
  have su: "map (\<lambda>b. (dense_units b, activations b, batch_normalized b, dropout_rates b))
           (blocks (layers (fit_model (fit_args r)))) =
          [([32], [''relu''], False, [0.2]),
           ([32], [''relu''], True, [0.2]),
           ([32], [''relu''], True, [0.2]),
           ([1], [''sigmoid''], False, [])]"
    unfolding bl by (simp add: batch_normalized_def)
  from la bl su lo ep show ?thesis by (intro conjI)
qed

theorem trained_network_architecture_witness:
  "map_sum id (\<lambda>r. (map batch_normalized (blocks (layers (fit_model (fit_args r)))),
                      loss (fit_model (fit_args r)), fit_epochs (fit_args r)))
     (train_model example_ml ''train.csv'' ''validate.csv'' ''model.onnx'') =
   Inr ([False, True, True, False], Some ''binary_crossentropy'', 2)"
proof -
  from example_run obtain r where
    run: "train_model example_ml ''train.csv'' ''validate.csv'' ''model.onnx'' = Inr r" ..
  let ?bs = "blocks (layers (fit_model (fit_args r)))"
  note t = trained_network_architecture [OF run]
  from t have e: "map (\<lambda>b. (dense_units b, activations b, batch_normalized b,
        dropout_rates b)) ?bs =
      [([32], [''relu''], False, [0.2]), ([32], [''relu''], True, [0.2]),
       ([32], [''relu''], True, [0.2]), ([1], [''sigmoid''], False, [])]"
    by (elim conjE)
  from t have l1: "loss (fit_model (fit_args r)) = Some ''binary_crossentropy''"
    by (elim conjE)
  from t have l2: "fit_epochs (fit_args r) = 2"
    by (elim conjE)
  note l = l1 l2
  have "map batch_normalized ?bs =
      map (\<lambda>t. fst (snd (snd t)))
        (map (\<lambda>b. (dense_units b, activations b, batch_normalized b, dropout_rates b)) ?bs)"
    by (simp add: comp_def)
  also have "\<dots> = [False, True, True, False]"
    unfolding e by simp
  finally show ?thesis using run l by simp
qed

text \<open>
  C4, as stated: each weight is \<open>n_samples / (n_classes \<times> count[c])\<close>, and the sum
  over the classes of weight times count equals the number of samples. The weights are
  binary64 numbers. For 50 labels, 39 of class 0 and 11 of class 1, the weight of class 0
  is the quotient 50 / 78 rounded, which is not 50 / 78, and the sum of weight times count
  is not 50: it is 50 + 39 / 2^53 when added exactly, and 50 + 1 / 2^47 when the products
  and the sum are rounded to binary64 as well.
\<close>

theorem class_weights_sum_inexact:
  "length (ravel (df_values labels_39_11)) = 50
   \<and> unique (ravel (df_values labels_39_11)) = [0, 1]
   \<and> count_list (ravel (df_values labels_39_11)) 0 = 39
   \<and> count_list (ravel (df_values labels_39_11)) 1 = 11
   \<and> class_weight_array labels_39_11 =
       Inr [5773845676116021 / 2 ^ 53, 5117726849284655 / 2 ^ 51]
   \<and> (5773845676116021 / 2 ^ 53 :: real) \<noteq> 50 / (2 * 39)
   \<and> (5773845676116021 / 2 ^ 53 * 39 + 5117726849284655 / 2 ^ 51 * 11 :: real)
       = 50 + 39 / 2 ^ 53
   \<and> float64 (float64 (5773845676116021 / 2 ^ 53 * 39)
                + float64 (5117726849284655 / 2 ^ 51 * 11)) = 50 + 1 / 2 ^ 47"
proof -
  have w: "class_weight_array labels_39_11 =
       Inr [5773845676116021 / 2 ^ 53, 5117726849284655 / 2 ^ 51]"
    using float64_50_78 float64_50_22
    by (simp add: class_weight_array_eq labels_39_11_facts count_list_replicate
        float64_numerals)
  have "round_half_even (5773845676116021 / 2 ^ 53 * 39 * 2 ^ 48) = 7036874417766401"
    by (simp add: round_half_even_def)
  then have p0: "float64 (5773845676116021 / 2 ^ 53 * 39) = 7036874417766401 / 2 ^ 48"
    using float64_scaled [of "5773845676116021 / 2 ^ 53 * 39" 48] by simp
  have "round_half_even (5117726849284655 / 2 ^ 51 * 11 * 2 ^ 48) = 7036874417766401"
    by (simp add: round_half_even_def)
  then have p1: "float64 (5117726849284655 / 2 ^ 51 * 11) = 7036874417766401 / 2 ^ 48"
    using float64_scaled [of "5117726849284655 / 2 ^ 51 * 11" 48] by simp
  have "round_half_even ((7036874417766401 / 2 ^ 48 + 7036874417766401 / 2 ^ 48) * 2 ^ 47)
      = 7036874417766401"
    by (simp add: round_half_even_def)
  then have "float64 (7036874417766401 / 2 ^ 48 + 7036874417766401 / 2 ^ 48)
      = 7036874417766401 / 2 ^ 47"
    using float64_scaled [of "7036874417766401 / 2 ^ 48 + 7036874417766401 / 2 ^ 48" 47]
    by simp
  then have s: "float64 (float64 (5773845676116021 / 2 ^ 53 * 39)
                + float64 (5117726849284655 / 2 ^ 51 * 11)) = 50 + 1 / 2 ^ 47"
    unfolding p0 p1 by simp
  have f: "length (ravel (df_values labels_39_11)) = 50"
    "unique (ravel (df_values labels_39_11)) = [0, 1]"
    "count_list (ravel (df_values labels_39_11)) 0 = 39"
    "count_list (ravel (df_values labels_39_11)) 1 = 11"
    by (simp_all add: labels_39_11_facts count_list_replicate)
  have a: "(5773845676116021 / 2 ^ 53 :: real) \<noteq> 50 / (2 * 39)"
    "(5773845676116021 / 2 ^ 53 * 39 + 5117726849284655 / 2 ^ 51 * 11 :: real)
       = 50 + 39 / 2 ^ 53"
    by simp_all
  from f w a s show ?thesis by (intro conjI)
qed

text \<open>
  C4, amended. For every training label vector of fewer than \<open>2^26\<close> labels, with its
  distinct labels in ascending order as the classes, the trainer computes one weight for
  each class, and the weight of class \<open>c\<close> is the quotient
  \<open>n_samples / (n_classes \<times> count[c])\<close> rounded to binary64: it differs from the
  quotient by at most the quotient divided by \<open>2^53\<close>. Hence the sum over the classes of
  weight times count, added exactly, differs from the number of samples by at most that
  number divided by \<open>2^53\<close>; it need not be equal to it.
\<close>

theorem class_weights_balanced_binary64:
  assumes "length (ravel (df_values y_train)) < 2 ^ 26"
  shows "let ys = ravel (df_values y_train); classes = unique ys;
       n = real (length ys); k = real (length classes)
   in sorted classes \<and> distinct classes \<and> set classes = set ys
      \<and> (\<exists>w. class_weight_array y_train = Inr w
           \<and> length w = length classes
           \<and> (\<forall>i<length classes.
                 w ! i = float64 (n / (k * real (count_list ys (classes ! i))))
               \<and> \<bar>w ! i - n / (k * real (count_list ys (classes ! i)))\<bar>
                    \<le> n / (k * real (count_list ys (classes ! i))) / 2 ^ 53)
           \<and> \<bar>(\<Sum>i<length classes. w ! i * real (count_list ys (classes ! i))) - n\<bar>
                \<le> n / 2 ^ 53)"
proof -
  define ys where "ys = ravel (df_values y_train)"
  define classes where "classes = unique ys"
  define q where "q = (\<lambda>c. real (length ys) / (real (length classes) * real (count_list ys c)))"
  define w where "w = map (\<lambda>c. float64 (q c)) classes"
  have n: "length ys < 2 ^ 26" using assms by (simp add: ys_def)
  have cl: "sorted classes" "distinct classes" "set classes = set ys"
    "length classes = length (remdups ys)"
    by (simp_all add: classes_def unique_props)
  have "map (\<lambda>c. float64 (float64 (real (length ys)) /
              float64 (float64 (real (length (remdups ys))) * float64 (real (count_list ys c)))))
          classes = w"
    unfolding w_def
  proof (rule map_cong [OF refl])
    fix c assume "c \<in> set classes"
    then have "c \<in> set ys" by (simp add: cl)
    then show "float64 (float64 (real (length ys)) /
              float64 (float64 (real (length (remdups ys))) * float64 (real (count_list ys c))))
          = float64 (q c)"
      using balanced_weight_rounded_once [OF n] by (simp add: q_def cl)
  qed
  then have cw: "class_weight_array y_train = Inr w"
    by (simp add: class_weight_array_eq ys_def [symmetric] classes_def [symmetric])
  have len: "length w = length classes" by (simp add: w_def)
  have nth: "w ! i = float64 (q (classes ! i))" if "i < length classes" for i
    using that by (simp add: w_def)
  have pos: "0 < q c" if "c \<in> set classes" for c
  proof -
    from that have "c \<in> set ys" by (simp add: cl)
    then have "0 < count_list ys c" "0 < length ys" "0 < length classes"
      by (auto simp: count_list_0_iff cl length_remdups_card_conv card_gt_0_iff
          intro: Nat.gr0I)
    then show ?thesis by (simp add: q_def)
  qed
  have err: "\<bar>w ! i - q (classes ! i)\<bar> \<le> q (classes ! i) / 2 ^ 53"
    if "i < length classes" for i
    using that float64_rel_error [OF pos [of "classes ! i"]] by (simp add: nth)
  have "(\<Sum>i<length classes. w ! i * real (count_list ys (classes ! i)))
      = (\<Sum>i<length classes. float64 (q (classes ! i)) * real (count_list ys (classes ! i)))"
    by (rule sum.cong) (simp_all add: nth)
  also have "\<dots> = (\<Sum>c\<leftarrow>classes. float64 (q c) * real (count_list ys c))"
    by (simp add: sum_list_sum_nth atLeast0LessThan)
  finally have "\<bar>(\<Sum>i<length classes. w ! i * real (count_list ys (classes ! i)))
        - real (length ys)\<bar> \<le> real (length ys) / 2 ^ 53"
    using balanced_sum_rounded [of ys] by (simp add: q_def classes_def)
  with cl(1-3) cw len nth err show ?thesis
    unfolding Let_def ys_def [symmetric] classes_def [symmetric] q_def
    by (intro conjI exI [of _ w] allI impI) simp_all
qed

theorem class_weights_balanced_binary64_witness:
  "length (ravel (df_values example_labels)) < 2 ^ 26
   \<and> map_sum id (\<lambda>w. (length w, w ! 1, \<bar>w ! 0 * 3 + w ! 1 * 1 - 4\<bar> \<le> 4 / 2 ^ 53))
       (class_weight_array example_labels) = Inr (2, 2, True)"
proof -
  have h: "length (ravel (df_values example_labels)) < 2 ^ 26"
    by (simp add: example_labels_unique)
  let ?q = "\<lambda>i. real (length [0, 0, 0, 1::real]) /
      (real (length [0, 1::real]) * real (count_list [0, 0, 0, 1] ([0, 1::real] ! i)))"
  from class_weights_balanced_binary64 [OF h] obtain w where
    w: "class_weight_array example_labels = Inr w" "length w = length [0, 1::real]"
    and i: "\<forall>i<length [0, 1::real]. w ! i = float64 (?q i)
        \<and> \<bar>w ! i - ?q i\<bar> \<le> ?q i / 2 ^ 53"
    and s: "\<bar>(\<Sum>i<length [0, 1::real]. w ! i * real (count_list [0, 0, 0, 1] ([0, 1::real] ! i)))
        - real (length [0, 0, 0, 1::real])\<bar> \<le> real (length [0, 0, 0, 1::real]) / 2 ^ 53"
    unfolding Let_def example_labels_unique by (elim exE conjE) (rule that)
  from i [rule_format, of 1] have "w ! 1 = 2"
    using float64_of_nat [of 2] by simp
  moreover from s have "\<bar>w ! 0 * 3 + w ! 1 * 1 - 4\<bar> \<le> 4 / 2 ^ 53"
    by (simp add: lessThan_Suc numeral_2_eq_2 add.commute)
  ultimately show ?thesis using h w by simp
qed

subsection \<open>The upload step\<close>

text \<open>
  C1, as stated: with a credential variable absent, the upload step fails before any
  request to the storage service. The step does not check its environment. Without
  \<^verbatim>\<open>AWS_S3_ENDPOINT\<close>, and with a library that takes the endpoint as the optional
  argument it is, the step runs to the end and the upload request goes out.
\<close>

theorem upload_model_request_without_endpoint:
  "''AWS_S3_ENDPOINT'' \<in> set credential_variables
   \<and> environ_without_endpoint ''AWS_S3_ENDPOINT'' = None
   \<and> \<not> fails_before_request
         (upload_model optional_args_s3 environ_without_endpoint ''model.onnx'')
   \<and> upload_model optional_args_s3 environ_without_endpoint ''model.onnx'' =
       ([Boto3Session (Some ''key'') (Some ''secret''),
         S3Resource None (Some ''us-east-1''),
         S3Bucket (Some ''models''),
         Print ''Uploading models/fraud/1/model.onnx'',
         S3UploadFile ''model.onnx'' (Some ''models/fraud/1/model.onnx''),
         S3Request],
        Inr ())"
  by (simp add: upload_model_def environ_without_endpoint_def full_environ_simps
      optional_args_s3_def environ_get_def str_of_opt_def fails_before_request_def
      credential_variables_def)

text \<open>
  C1, amended. The upload step makes no check of its own: a variable absent from the
  environment is read as \<^verbatim>\<open>None\<close> and handed to the storage library as it is. In
  every execution the first action is the library's session call with the two credentials
  as read. When the session, resource and bucket calls accept what they are given,
  \<^verbatim>\<open>upload_file\<close> is called with the model's path and the value of \<^verbatim>\<open>S3_KEY\<close>,
  and whether a request goes out and whether the step fails is what that call does. The
  step fails only with an error that one of these four library calls raised.
\<close>

theorem upload_model_no_check:
  "take 1 (fst (upload_model boto3 environ p)) =
     [Boto3Session (environ ''AWS_ACCESS_KEY_ID'') (environ ''AWS_SECRET_ACCESS_KEY'')]
   \<and> (Session boto3 (environ ''AWS_ACCESS_KEY_ID'') (environ ''AWS_SECRET_ACCESS_KEY'') = Inr s
        \<longrightarrow> resource boto3 s (environ ''AWS_S3_ENDPOINT'') (environ ''AWS_DEFAULT_REGION'') = Inr r
        \<longrightarrow> Bucket boto3 r (environ ''AWS_S3_BUCKET'') = Inr b
        \<longrightarrow> upload_model boto3 environ p =
              ([Boto3Session (environ ''AWS_ACCESS_KEY_ID'') (environ ''AWS_SECRET_ACCESS_KEY''),
                S3Resource (environ ''AWS_S3_ENDPOINT'') (environ ''AWS_DEFAULT_REGION''),
                S3Bucket (environ ''AWS_S3_BUCKET''),
                Print (''Uploading '' @ str_of_opt (environ ''S3_KEY'')),
                S3UploadFile p (environ ''S3_KEY'')]
               @ (if fst (upload_file boto3 b p (environ ''S3_KEY'')) then [S3Request] else []),
               snd (upload_file boto3 b p (environ ''S3_KEY''))))
   \<and> (snd (upload_model boto3 environ p) = Inl e \<longrightarrow>
        Session boto3 (environ ''AWS_ACCESS_KEY_ID'') (environ ''AWS_SECRET_ACCESS_KEY'') = Inl e
        \<or> (\<exists>s'. Session boto3 (environ ''AWS_ACCESS_KEY_ID'') (environ ''AWS_SECRET_ACCESS_KEY'') = Inr s'
             \<and> (resource boto3 s' (environ ''AWS_S3_ENDPOINT'') (environ ''AWS_DEFAULT_REGION'') = Inl e
                \<or> (\<exists>r'. resource boto3 s' (environ ''AWS_S3_ENDPOINT'') (environ ''AWS_DEFAULT_REGION'') = Inr r'
                     \<and> (Bucket boto3 r' (environ ''AWS_S3_BUCKET'') = Inl e
                        \<or> (\<exists>b'. Bucket boto3 r' (environ ''AWS_S3_BUCKET'') = Inr b'
                             \<and> snd (upload_file boto3 b' p (environ ''S3_KEY'')) = Inl e))))))"
  by (auto simp: upload_model_def environ_get_def Let_def split: sum.splits prod.splits)

theorem upload_model_no_check_witness:
  "Session optional_args_s3 (environ_without_key ''AWS_ACCESS_KEY_ID'')
       (environ_without_key ''AWS_SECRET_ACCESS_KEY'') = Inr ()
   \<and> resource optional_args_s3 () (environ_without_key ''AWS_S3_ENDPOINT'')
       (environ_without_key ''AWS_DEFAULT_REGION'') = Inr ()
   \<and> Bucket optional_args_s3 () (environ_without_key ''AWS_S3_BUCKET'') = Inr ''models''
   \<and> upload_model optional_args_s3 environ_without_key ''model.onnx'' =
       ([Boto3Session (Some ''key'') (Some ''secret''),
         S3Resource (Some ''https://minio.example:9000'') (Some ''us-east-1''),
         S3Bucket (Some ''models''),
         Print ''Uploading None'',
         S3UploadFile ''model.onnx'' None],
        Inl (LibraryError ''ParamValidationError''))"
proof -
  have a: "Session optional_args_s3 (environ_without_key ''AWS_ACCESS_KEY_ID'')
       (environ_without_key ''AWS_SECRET_ACCESS_KEY'') = Inr ()"
    "resource optional_args_s3 () (environ_without_key ''AWS_S3_ENDPOINT'')
       (environ_without_key ''AWS_DEFAULT_REGION'') = Inr ()"
    "Bucket optional_args_s3 () (environ_without_key ''AWS_S3_BUCKET'') = Inr ''models''"
    by (simp_all add: optional_args_s3_def environ_without_key_def full_environ_simps)
  from upload_model_no_check [of optional_args_s3 environ_without_key "''model.onnx''" "()" "()" "''models''"] a
  show ?thesis
    by (simp add: environ_without_key_def full_environ_simps optional_args_s3_def str_of_opt_def)
qed

end
